theory Spec2Isabelle
  imports Complex_Main
begin

section \<open>Job execution state and reports of webchanges (handler.py)\<close>

text \<open>
  The module \<^verbatim>\<open>webchanges/handler.py\<close> is embedded with explicit state passing. A Python
  exception is a value: an operation that can raise returns \<open>Inl e\<close> for the exception and
  \<open>Inr v\<close> for the returned value, next to the state it leaves behind (Python mutates
  the object in place, so the state is there also when the call raises). Only instances of
  \<^verbatim>\<open>Exception\<close> are modelled, as the annotation \<^verbatim>\<open>exception: Exception | None\<close> has it.
  Log messages are not modelled.
\<close>

subsection \<open>Data\<close>

type_synonym addr = nat

text \<open>\<^verbatim>\<open>str | bytes\<close>\<close>

datatype payload = Str string | Bytes string

text \<open>The named tuple \<^verbatim>\<open>Snapshot\<close>; a Python float is kept as the number it denotes.\<close>

datatype snapshot =
  Snapshot (data: payload) (timestamp: real) (tries: int) (etag: string) (mime_type: string)

datatype exn_class = NotModifiedError | AttributeError | KeyError | TypeError | OtherError

datatype exn = Exn exn_class string

text \<open>\<^verbatim>\<open>isinstance(e, NotModifiedError)\<close>\<close>

fun is_NotModifiedError :: "exn \<Rightarrow> bool" where
  "is_NotModifiedError (Exn c m) = (c = NotModifiedError)"

datatype report_kind = Text | Markdown | Html

text \<open>The value of \<^verbatim>\<open>error_ignored: bool | str\<close> and its truth value.\<close>

datatype bool_or_str = B bool | S string

fun truthy :: "bool_or_str \<Rightarrow> bool" where
  "truthy (B b) = b"
| "truthy (S s) = (s \<noteq> [])"

text \<open>
  A directive of the jobs file (\<^verbatim>\<open>dict[str, Any]\<close>, or the list of filters) is an
  association list of strings; the collaborators that read it are parameters.
\<close>

type_synonym directives = "(string \<times> string) list"

text \<open>The attributes of \<^verbatim>\<open>JobBase\<close> that the handler reads.\<close>

record job =
  index_number :: int
  compared_versions :: "int option"
  job_filter :: directives
  diff_filter :: directives
  differ :: "directives option"
  is_markdown :: bool

text \<open>
  \<^verbatim>\<open>JobState\<close>. An attribute that the class only annotates (\<^verbatim>\<open>new_data\<close>,
  \<^verbatim>\<open>new_etag\<close>, \<^verbatim>\<open>new_timestamp\<close>, \<^verbatim>\<open>traceback\<close>, \<^verbatim>\<open>error_ignored\<close>,
  \<^verbatim>\<open>verb\<close>) does not exist until it is assigned: \<open>None\<close> is "not set", and reading it
  raises \<^verbatim>\<open>AttributeError\<close>. The three containers are references into the heap: the field
  holds the address that the attribute lookup resolves to.
\<close>

record jobstate =
  job :: job
  error_ignored :: "bool_or_str option"
  exception :: "exn option"
  generated_diff :: addr
  history_dic_snapshots :: addr
  new_data :: "payload option"
  new_etag :: "string option"
  new_mime_type :: string
  new_timestamp :: "real option"
  old_snapshot :: snapshot
  old_data :: payload
  old_etag :: string
  old_mime_type :: string
  old_timestamp :: real
  traceback :: "string option"
  tries :: int
  unfiltered_diff :: addr
  verb :: "string option"

text \<open>Python dictionaries keep insertion order: association lists with distinct keys.\<close>

datatype obj =
  DiffDict "(report_kind \<times> payload) list"
| HistDict "(payload \<times> snapshot) list"
| JobStateList "jobstate list"

text \<open>
  The world outside one \<^verbatim>\<open>JobState\<close>: the heap of container objects (an address is an
  index), the number of clock readings taken, the calls \<^verbatim>\<open>snapshots_db.save(guid, snapshot)\<close>
  made so far, and the calls of \<^verbatim>\<open>DifferBase.process\<close> made so far (differ kind and
  report kind).
\<close>

record world =
  objs :: "obj list"
  clock :: nat
  db_saves :: "(string \<times> snapshot) list"
  differ_calls :: "(string \<times> report_kind) list"

text \<open>
  The collaborators that are not part of handler.py: the job's methods, the snapshot store,
  the filter and differ registries, the clock, the traceback formatter and the process
  environment. Each is a function of its arguments (the store also of what was saved) that
  returns or raises; none of them assigns an attribute of the \<^verbatim>\<open>JobState\<close> it is given.
\<close>

record env =
  get_guid :: "job \<Rightarrow> exn + string"
  snapshots_db_load :: "(string \<times> snapshot) list \<Rightarrow> string \<Rightarrow> exn + snapshot"
  get_history_snapshots :: "(string \<times> snapshot) list \<Rightarrow> string \<Rightarrow> int \<Rightarrow> exn + snapshot list"
  snapshots_db_save :: "(string \<times> snapshot) list \<Rightarrow> string \<Rightarrow> snapshot \<Rightarrow> exn option"
  retrieve :: "job \<Rightarrow> jobstate \<Rightarrow> bool \<Rightarrow> exn + (payload \<times> string \<times> string)"
  format_error :: "job \<Rightarrow> exn \<Rightarrow> string \<Rightarrow> exn + string"
  ignore_error :: "job \<Rightarrow> exn \<Rightarrow> exn + bool_or_str"
  auto_process :: "jobstate \<Rightarrow> payload \<Rightarrow> string \<Rightarrow> exn + (payload \<times> string)"
  normalize_filter_list :: "directives \<Rightarrow> int \<Rightarrow> exn + (string \<times> directives) list"
  FilterBase_process ::
    "string \<Rightarrow> directives \<Rightarrow> jobstate \<Rightarrow> payload \<Rightarrow> string \<Rightarrow> exn + (payload \<times> string)"
  normalize_differ :: "directives option \<Rightarrow> int \<Rightarrow> exn + (string \<times> directives)"
  DifferBase_process ::
    "string \<Rightarrow> directives \<Rightarrow> jobstate \<Rightarrow> report_kind \<Rightarrow> string option \<Rightarrow>
     (report_kind \<times> payload) list \<Rightarrow> exn + (report_kind \<times> payload) list"
  now :: "nat \<Rightarrow> real"
  format_exc :: "exn \<Rightarrow> string"
  getenv :: "string \<Rightarrow> string option"
  ZoneInfo :: "string \<Rightarrow> exn + string"

subsection \<open>Heap and clock\<close>

definition alloc :: "world \<Rightarrow> obj \<Rightarrow> addr \<times> world" where
  "alloc w ob = (length (objs w), w\<lparr>objs := objs w @ [ob]\<rparr>)"

text \<open>\<^verbatim>\<open>time.time()\<close>\<close>

definition time_time :: "env \<Rightarrow> world \<Rightarrow> real \<times> world" where
  "time_time E w = (now E (clock w), w\<lparr>clock := Suc (clock w)\<rparr>)"

text \<open>\<^verbatim>\<open>d[k] = v\<close> on an insertion-ordered dictionary.\<close>

fun dict_set :: "'k \<Rightarrow> 'v \<Rightarrow> ('k \<times> 'v) list \<Rightarrow> ('k \<times> 'v) list" where
  "dict_set k v [] = [(k, v)]"
| "dict_set k v (p # ps) = (if fst p = k then (k, v) # ps else p # dict_set k v ps)"

text \<open>\<^verbatim>\<open>d.update(other)\<close>\<close>

fun dict_update :: "('k \<times> 'v) list \<Rightarrow> ('k \<times> 'v) list \<Rightarrow> ('k \<times> 'v) list" where
  "dict_update d [] = d"
| "dict_update d (p # ps) = dict_update (dict_set (fst p) (snd p) d) ps"

subsection \<open>Class attributes and constructors\<close>

text \<open>
  Executing the class bodies creates one object for each container that is a class-level
  default: \<^verbatim>\<open>history_dic_snapshots = {}\<close> (line 56) and \<^verbatim>\<open>unfiltered_diff = {}\<close> (line 74)
  of \<^verbatim>\<open>JobState\<close>, and \<^verbatim>\<open>job_states = []\<close> (line 285) of \<^verbatim>\<open>Report\<close>.
\<close>

record class_attrs =
  JobState_history_dic_snapshots :: addr
  JobState_unfiltered_diff :: addr
  Report_job_states :: addr

definition handler_module :: "world \<Rightarrow> class_attrs \<times> world" where
  "handler_module w =
    (let (a1, w1) = alloc w (HistDict []);
         (a2, w2) = alloc w1 (DiffDict []);
         (a3, w3) = alloc w2 (JobStateList [])
     in (\<lparr>JobState_history_dic_snapshots = a1, JobState_unfiltered_diff = a2,
          Report_job_states = a3\<rparr>, w3))"

text \<open>
  \<^verbatim>\<open>JobState.__init__\<close> assigns \<^verbatim>\<open>generated_diff\<close> and \<^verbatim>\<open>unfiltered_diff\<close> (lines 87, 88)
  and nothing else besides \<^verbatim>\<open>snapshots_db\<close> and \<^verbatim>\<open>job\<close>: every other attribute of the new
  instance resolves to the class-level default, or is not set.
\<close>

definition JobState_init :: "class_attrs \<Rightarrow> job \<Rightarrow> world \<Rightarrow> jobstate \<times> world" where
  "JobState_init C j w =
    (let (g, w1) = alloc w (DiffDict []);
         (u, w2) = alloc w1 (DiffDict [])
     in (\<lparr>job = j, error_ignored = None, exception = None, generated_diff = g,
          history_dic_snapshots = JobState_history_dic_snapshots C,
          new_data = None, new_etag = None, new_mime_type = [], new_timestamp = None,
          old_snapshot = Snapshot (Str []) 1605147837.511478 0 [] ''text/plain'',
          old_data = Str [], old_etag = [], old_mime_type = ''text/plain'',
          old_timestamp = 1605147837.511478, traceback = None, tries = 0,
          unfiltered_diff = u, verb = None\<rparr>, w2))"

subsection \<open>JobState.load\<close>

text \<open>\<^verbatim>\<open>{s.data: s for s in snapshots}\<close>\<close>

definition history_dict :: "snapshot list \<Rightarrow> (payload \<times> snapshot) list" where
  "history_dict hs = dict_update [] (map (\<lambda>s. (data s, s)) hs)"

definition load :: "env \<Rightarrow> jobstate \<Rightarrow> world \<Rightarrow> (exn + unit) \<times> jobstate \<times> world" where
  "load E s w =
    (case get_guid E (job s) of
       Inl e \<Rightarrow> (Inl e, s, w)
     | Inr guid \<Rightarrow>
        (case snapshots_db_load E (db_saves w) guid of
           Inl e \<Rightarrow> (Inl e, s, w)
         | Inr snap \<Rightarrow>
            (let s1 = s\<lparr>old_snapshot := snap, old_data := data snap,
                        old_timestamp := timestamp snap, tries := snapshot.tries snap,
                        old_etag := etag snap, old_mime_type := mime_type snap\<rparr>
             in case compared_versions (job s1) of
                  None \<Rightarrow> (Inr (), s1, w)
                | Some n \<Rightarrow>
                   if n \<noteq> 0 \<and> n > 1 then
                     (case get_history_snapshots E (db_saves w) guid n of
                        Inl e \<Rightarrow> (Inl e, s1, w)
                      | Inr hs \<Rightarrow>
                         (let (a, w1) = alloc w (HistDict (history_dict hs))
                          in (Inr (), s1\<lparr>history_dic_snapshots := a\<rparr>, w1)))
                   else (Inr (), s1, w))))"

subsection \<open>JobState.process\<close>

text \<open>The loop over the job's filters (lines 204 to 207).\<close>

fun apply_filters ::
  "env \<Rightarrow> jobstate \<Rightarrow> (string \<times> directives) list \<Rightarrow> payload \<Rightarrow> string \<Rightarrow> exn + (payload \<times> string)"
where
  "apply_filters E s [] d m = Inr (d, m)"
| "apply_filters E s ((filter_kind, subfilter) # fs) d m =
    (case FilterBase_process E filter_kind subfilter s d m of
       Inl e \<Rightarrow> Inl e
     | Inr (d1, m1) \<Rightarrow> apply_filters E s fs d1 m1)"

text \<open>The body of the inner \<^verbatim>\<open>try\<close> (lines 191 to 210).\<close>

definition process_try ::
  "env \<Rightarrow> bool \<Rightarrow> jobstate \<Rightarrow> world \<Rightarrow> (exn + unit) \<times> jobstate \<times> world" where
  "process_try E headless s w =
    (case load E s w of
       (Inl e, s1, w1) \<Rightarrow> (Inl e, s1, w1)
     | (Inr u, s1, w1) \<Rightarrow>
        (let (t, w2) = time_time E w1;
             s2 = s1\<lparr>new_timestamp := Some t\<rparr>
         in case retrieve E (job s2) s2 headless of
              Inl e \<Rightarrow> (Inl e, s2, w2)
            | Inr (d, new_etag_v, m) \<Rightarrow>
               (let s3 = s2\<lparr>new_etag := Some new_etag_v\<rparr>
                in case auto_process E s3 d m of
                     Inl e \<Rightarrow> (Inl e, s3, w2)
                   | Inr (filtered_data, m1) \<Rightarrow>
                      (case normalize_filter_list E (job_filter (job s3)) (index_number (job s3)) of
                         Inl e \<Rightarrow> (Inl e, s3, w2)
                       | Inr fs \<Rightarrow>
                          (case apply_filters E s3 fs filtered_data m1 of
                             Inl e \<Rightarrow> (Inl e, s3, w2)
                           | Inr (d2, m2) \<Rightarrow>
                              (Inr (), s3\<lparr>new_data := Some d2, new_mime_type := m2\<rparr>, w2))))))"

text \<open>The inner handler (lines 216 to 225): the job formats and may ignore its error.\<close>

definition process_except ::
  "env \<Rightarrow> exn \<Rightarrow> jobstate \<Rightarrow> world \<Rightarrow> (exn + unit) \<times> jobstate \<times> world" where
  "process_except E e s w =
    (let (t, w1) = time_time E w;
         s1 = s\<lparr>new_timestamp := Some t, exception := Some e\<rparr>
     in case format_error E (job s1) e (format_exc E e) of
          Inl e2 \<Rightarrow> (Inl e2, s1, w1)
        | Inr tb \<Rightarrow>
           (let s2 = s1\<lparr>traceback := Some tb\<rparr>
            in case ignore_error E (job s2) e of
                 Inl e2 \<Rightarrow> (Inl e2, s2, w1)
               | Inr ig \<Rightarrow>
                  (let s3 = s2\<lparr>error_ignored := Some ig\<rparr>
                   in if \<not> (truthy ig \<or> is_NotModifiedError e)
                      then (Inr (), s3\<lparr>tries := tries s3 + 1\<rparr>, w1)
                      else (Inr (), s3, w1))))"

text \<open>\<^verbatim>\<open>os.getenv('PYCHARM_HOSTED')\<close> as a condition: set and not empty.\<close>

definition pycharm_hosted :: "env \<Rightarrow> bool" where
  "pycharm_hosted E = (case getenv E ''PYCHARM_HOSTED'' of None \<Rightarrow> False | Some v \<Rightarrow> v \<noteq> [])"

text \<open>The outer handler (lines 228 to 238): the job failed its chance to handle the error.\<close>

definition process_except_outer ::
  "env \<Rightarrow> exn \<Rightarrow> jobstate \<Rightarrow> world \<Rightarrow> (exn + unit) \<times> jobstate \<times> world" where
  "process_except_outer E e s w =
    (if pycharm_hosted E then (Inl e, s, w)
     else
       (let s1 = s\<lparr>exception := Some e\<rparr>
        in case format_error E (job s1) e (format_exc E e) of
             Inl e2 \<Rightarrow> (Inl e2, s1, w)
           | Inr tb \<Rightarrow>
              (let s2 = s1\<lparr>traceback := Some tb, error_ignored := Some (B False)\<rparr>
               in if \<not> is_NotModifiedError e
                  then (Inr (), s2\<lparr>tries := tries s2 + 1\<rparr>, w)
                  else (Inr (), s2, w))))"

text \<open>
  \<^verbatim>\<open>process(headless)\<close>: \<open>Inr ()\<close> is \<^verbatim>\<open>return self\<close>, the state is \<^verbatim>\<open>self\<close>
  afterwards. An exception object is true as a condition, so \<^verbatim>\<open>if self.exception\<close> is
  "is not None".
\<close>

definition process ::
  "env \<Rightarrow> bool \<Rightarrow> jobstate \<Rightarrow> world \<Rightarrow> (exn + unit) \<times> jobstate \<times> world" where
  "process E headless s w =
    (if exception s \<noteq> None then
       (let (t, w1) = time_time E w in (Inr (), s\<lparr>new_timestamp := Some t\<rparr>, w1))
     else
       (case process_try E headless s w of
          (Inr u, s1, w1) \<Rightarrow> (Inr (), s1, w1)
        | (Inl e, s1, w1) \<Rightarrow>
           (case process_except E e s1 w1 of
              (Inr u, s2, w2) \<Rightarrow> (Inr (), s2, w2)
            | (Inl e2, s2, w2) \<Rightarrow> process_except_outer E e2 s2 w2)))"

subsection \<open>JobState.save\<close>

text \<open>Reading an attribute that may not be set (\<^verbatim>\<open>self.new_data\<close> and the like).\<close>

definition getattr :: "string \<Rightarrow> 'a option \<Rightarrow> exn + 'a" where
  "getattr name v = (case v of None \<Rightarrow> Inl (Exn AttributeError name) | Some x \<Rightarrow> Inr x)"

definition save :: "env \<Rightarrow> bool \<Rightarrow> jobstate \<Rightarrow> world \<Rightarrow> (exn + unit) \<times> jobstate \<times> world" where
  "save E use_old_data s w =
    (let s1 = (if use_old_data
               then s\<lparr>new_data := Some (old_data s), new_etag := Some (old_etag s),
                      new_mime_type := old_mime_type s\<rparr>
               else s)
     in case getattr ''new_data'' (new_data s1) of
          Inl e \<Rightarrow> (Inl e, s1, w)
        | Inr d \<Rightarrow>
      (case getattr ''new_timestamp'' (new_timestamp s1) of
          Inl e \<Rightarrow> (Inl e, s1, w)
        | Inr t \<Rightarrow>
      (case getattr ''new_etag'' (new_etag s1) of
          Inl e \<Rightarrow> (Inl e, s1, w)
        | Inr et \<Rightarrow>
      (let new_snapshot = Snapshot d t (tries s1) et (new_mime_type s1)
       in case get_guid E (job s1) of
            Inl e \<Rightarrow> (Inl e, s1, w)
          | Inr guid \<Rightarrow>
             (let w1 = w\<lparr>db_saves := db_saves w @ [(guid, new_snapshot)]\<rparr>
              in case snapshots_db_save E (db_saves w) guid new_snapshot of
                   Some e \<Rightarrow> (Inl e, s1, w1)
                 | None \<Rightarrow> (Inr (), s1, w1))))))"

subsection \<open>JobState.get_diff\<close>

text \<open>
  The dictionary of diffs at an address. The annotations \<^verbatim>\<open>dict[Literal[...], str]\<close> exclude
  any other object there; the model raises \<^verbatim>\<open>TypeError\<close> for one.
\<close>

definition dict_at :: "world \<Rightarrow> addr \<Rightarrow> exn + (report_kind \<times> payload) list" where
  "dict_at w a =
    (if a < length (objs w)
     then (case objs w ! a of DiffDict d \<Rightarrow> Inr d | _ \<Rightarrow> Inl (Exn TypeError ''dict''))
     else Inl (Exn TypeError ''dict''))"

definition dict_put :: "world \<Rightarrow> addr \<Rightarrow> (report_kind \<times> payload) list \<Rightarrow> world" where
  "dict_put w a d = w\<lparr>objs := (objs w)[a := DiffDict d]\<rparr>"

text \<open>
  \<^verbatim>\<open>x is {}\<close>: the display \<^verbatim>\<open>{}\<close> creates a new object, \<^verbatim>\<open>is\<close> compares the two
  references, and the new object is dropped again.
\<close>

definition is_new_dict :: "world \<Rightarrow> addr \<Rightarrow> bool" where
  "is_new_dict w a = (a = fst (alloc w (DiffDict [])))"

text \<open>The truth value of a \<^verbatim>\<open>str\<close> or \<^verbatim>\<open>bytes\<close>.\<close>

fun payload_truthy :: "payload \<Rightarrow> bool" where
  "payload_truthy (Str x) = (x \<noteq> [])"
| "payload_truthy (Bytes x) = (x \<noteq> [])"

text \<open>\<^verbatim>\<open>differ or self.job.differ\<close>: an empty dictionary is false.\<close>

definition differ_or :: "directives option \<Rightarrow> directives option \<Rightarrow> directives option" where
  "differ_or a b = (case a of None \<Rightarrow> b | Some d \<Rightarrow> if d \<noteq> [] then Some d else b)"

text \<open>Lines 262 to 264: the differ is invoked and its result merged into \<^verbatim>\<open>unfiltered_diff\<close>.\<close>

definition run_differ ::
  "env \<Rightarrow> jobstate \<Rightarrow> report_kind \<Rightarrow> directives option \<Rightarrow> string option \<Rightarrow> world \<Rightarrow>
   (exn + unit) \<times> world" where
  "run_differ E s report_kind differ_arg tz w =
    (case normalize_differ E (differ_or differ_arg (differ (job s))) (index_number (job s)) of
       Inl e \<Rightarrow> (Inl e, w)
     | Inr (differ_kind, subdiffer) \<Rightarrow>
        (let w1 = w\<lparr>differ_calls := differ_calls w @ [(differ_kind, report_kind)]\<rparr>
         in case dict_at w1 (unfiltered_diff s) of
              Inl e \<Rightarrow> (Inl e, w1)
            | Inr u \<Rightarrow>
               (case DifferBase_process E differ_kind subdiffer s report_kind tz u of
                  Inl e \<Rightarrow> (Inl e, w1)
                | Inr unfiltered \<Rightarrow>
                   (Inr (), dict_put w1 (unfiltered_diff s) (dict_update u unfiltered)))))"

text \<open>Lines 265 to 275: the diff filters, and the entry in \<^verbatim>\<open>generated_diff\<close>.\<close>

definition filter_diff ::
  "env \<Rightarrow> jobstate \<Rightarrow> report_kind \<Rightarrow> world \<Rightarrow> (exn + payload) \<times> world" where
  "filter_diff E s report_kind w =
    (case dict_at w (unfiltered_diff s) of
       Inl e \<Rightarrow> (Inl e, w)
     | Inr u \<Rightarrow>
    (case map_of u report_kind of
       None \<Rightarrow> (Inl (Exn KeyError ''report_kind''), w)
     | Some d \<Rightarrow>
    (case (if payload_truthy d
           then (case normalize_filter_list E (diff_filter (job s)) (index_number (job s)) of
                   Inl e \<Rightarrow> Inl e
                 | Inr fs \<Rightarrow> apply_filters E s fs d ''text/plain'')
           else Inr (d, ''text/plain'')) of
       Inl e \<Rightarrow> (Inl e, w)
     | Inr (d1, m1) \<Rightarrow>
    (case dict_at w (generated_diff s) of
       Inl e \<Rightarrow> (Inl e, w)
     | Inr g \<Rightarrow>
        (let w1 = dict_put w (generated_diff s) (dict_set report_kind d1 g)
         in case dict_at w1 (generated_diff s) of
              Inl e \<Rightarrow> (Inl e, w1)
            | Inr g1 \<Rightarrow>
               (case map_of g1 report_kind of
                  None \<Rightarrow> (Inl (Exn KeyError ''report_kind''), w1)
                | Some v \<Rightarrow> (Inr v, w1)))))))"

text \<open>Lines 261 to 275, with the condition of line 261 as a parameter.\<close>

definition compute_diff ::
  "env \<Rightarrow> jobstate \<Rightarrow> report_kind \<Rightarrow> directives option \<Rightarrow> string option \<Rightarrow> world \<Rightarrow> bool \<Rightarrow>
   (exn + payload) \<times> world" where
  "compute_diff E s report_kind differ_arg tz w recompute =
    (if recompute then
       (case run_differ E s report_kind differ_arg tz w of
          (Inl e, w1) \<Rightarrow> (Inl e, w1)
        | (Inr u, w1) \<Rightarrow> filter_diff E s report_kind w1)
     else filter_diff E s report_kind w)"

text \<open>\<^verbatim>\<open>report_kind not in self.unfiltered_diff\<close>\<close>

definition not_in_unfiltered :: "jobstate \<Rightarrow> report_kind \<Rightarrow> world \<Rightarrow> exn + bool" where
  "not_in_unfiltered s report_kind w =
    (case dict_at w (unfiltered_diff s) of
       Inl e \<Rightarrow> Inl e
     | Inr u \<Rightarrow> Inr (map_of u report_kind = None))"

text \<open>Lines 261 to 275 as written: \<^verbatim>\<open>self.generated_diff is {} or report_kind not in ...\<close>.\<close>

definition get_diff_miss ::
  "env \<Rightarrow> jobstate \<Rightarrow> report_kind \<Rightarrow> directives option \<Rightarrow> string option \<Rightarrow> world \<Rightarrow>
   (exn + payload) \<times> world" where
  "get_diff_miss E s report_kind differ_arg tz w =
    (if is_new_dict w (generated_diff s) then compute_diff E s report_kind differ_arg tz w True
     else (case not_in_unfiltered s report_kind w of
             Inl e \<Rightarrow> (Inl e, w)
           | Inr c \<Rightarrow> compute_diff E s report_kind differ_arg tz w c))"

definition get_diff ::
  "env \<Rightarrow> jobstate \<Rightarrow> report_kind \<Rightarrow> directives option \<Rightarrow> string option \<Rightarrow> world \<Rightarrow>
   (exn + payload) \<times> world" where
  "get_diff E s report_kind differ_arg tz w =
    (if \<not> is_new_dict w (generated_diff s) then
       (case dict_at w (generated_diff s) of
          Inl e \<Rightarrow> (Inl e, w)
        | Inr g \<Rightarrow>
           (case map_of g report_kind of
              Some v \<Rightarrow> (Inr v, w)
            | None \<Rightarrow> get_diff_miss E s report_kind differ_arg tz w))
     else get_diff_miss E s report_kind differ_arg tz w)"

text \<open>
  The variant the design notes ask for: the cache check is only
  \<^verbatim>\<open>report_kind in self.generated_diff\<close>, the condition to recompute only
  \<^verbatim>\<open>report_kind not in self.unfiltered_diff\<close>.
\<close>

definition get_diff_simplified ::
  "env \<Rightarrow> jobstate \<Rightarrow> report_kind \<Rightarrow> directives option \<Rightarrow> string option \<Rightarrow> world \<Rightarrow>
   (exn + payload) \<times> world" where
  "get_diff_simplified E s report_kind differ_arg tz w =
    (case dict_at w (generated_diff s) of
       Inl e \<Rightarrow> (Inl e, w)
     | Inr g \<Rightarrow>
        (case map_of g report_kind of
           Some v \<Rightarrow> (Inr v, w)
         | None \<Rightarrow>
            (case not_in_unfiltered s report_kind w of
               Inl e \<Rightarrow> (Inl e, w)
             | Inr c \<Rightarrow> compute_diff E s report_kind differ_arg tz w c)))"

subsection \<open>Report\<close>

text \<open>\<^verbatim>\<open>config['display']\<close> and the part of \<^verbatim>\<open>config['report']\<close> that the handler reads.\<close>

record display =
  display_new :: bool
  display_error :: bool
  display_unchanged :: bool
  display_empty_diff :: bool

record config =
  config_display :: display
  config_report_tz :: "string option option"

text \<open>
  \<^verbatim>\<open>Report\<close>. \<open>config_report_tz\<close> is \<open>None\<close> when the configuration has no \<^verbatim>\<open>'report'\<close>
  key. \<open>job_states\<close> is the address that \<^verbatim>\<open>self.job_states\<close> resolves to.
\<close>

record report =
  config :: config
  tz :: "string option"
  job_states :: addr

text \<open>
  \<^verbatim>\<open>Report.__init__\<close> assigns \<^verbatim>\<open>config\<close> and \<^verbatim>\<open>tz\<close> only: \<^verbatim>\<open>self.job_states\<close> of the
  new instance resolves to the class attribute.
\<close>

definition Report_init :: "env \<Rightarrow> class_attrs \<Rightarrow> config \<Rightarrow> exn + report" where
  "Report_init E C cfg =
    (case config_report_tz cfg of
       Some (Some name) \<Rightarrow>
        (case ZoneInfo E name of
           Inl e \<Rightarrow> Inl e
         | Inr z \<Rightarrow> Inr \<lparr>config = cfg, tz = Some z, job_states = Report_job_states C\<rparr>)
     | _ \<Rightarrow> Inr \<lparr>config = cfg, tz = None, job_states = Report_job_states C\<rparr>)"

text \<open>
  \<^verbatim>\<open>Report._result\<close>: the verb is set and the job state appended to the list object. The list
  of the model holds the job state as it is when appended.
\<close>

definition Report_result ::
  "report \<Rightarrow> string \<Rightarrow> jobstate \<Rightarrow> world \<Rightarrow> (exn + unit) \<times> jobstate \<times> world" where
  "Report_result r v s w =
    (let s1 = s\<lparr>verb := Some v\<rparr>
     in if job_states r < length (objs w)
        then (case objs w ! job_states r of
                JobStateList l \<Rightarrow>
                  (Inr (), s1, w\<lparr>objs := (objs w)[job_states r := JobStateList (l @ [s1])]\<rparr>)
              | _ \<Rightarrow> (Inl (Exn AttributeError ''append''), s1, w))
        else (Inl (Exn AttributeError ''append''), s1, w))"

text \<open>\<^verbatim>\<open>self.config['display'][verb]\<close> for the three verbs of line 379.\<close>

definition display_flag :: "display \<Rightarrow> string \<Rightarrow> bool" where
  "display_flag d v =
    (if v = ''unchanged'' then display_unchanged d
     else if v = ''new'' then display_new d
     else display_error d)"

text \<open>
  \<^verbatim>\<open>get_filtered_job_states\<close>, iterated to its end: the job states yielded, the exception
  that ended the iteration if there was one, and the world afterwards.
\<close>

fun get_filtered_job_states ::
  "env \<Rightarrow> report \<Rightarrow> jobstate list \<Rightarrow> world \<Rightarrow> jobstate list \<times> exn option \<times> world" where
  "get_filtered_job_states E r [] w = ([], None, w)"
| "get_filtered_job_states E r (job_state # rest) w =
    (case getattr ''verb'' (verb job_state) of
       Inl e \<Rightarrow> ([], Some e, w)
     | Inr v \<Rightarrow>
        if \<not> (\<exists>x \<in> {''unchanged'', ''new'', ''error''}.
                 v = x \<and> \<not> display_flag (config_display (config r)) x)
           \<and> v \<noteq> ''changed,no_report''
        then
          (if v = ''changed'' \<and> \<not> display_empty_diff (config_display (config r))
           then
             (case get_diff E job_state Text None (tz r) w of
                (Inl e, w1) \<Rightarrow> ([], Some e, w1)
              | (Inr d, w1) \<Rightarrow>
                 if d = Str []
                 then get_filtered_job_states E r rest w1
                 else (case get_filtered_job_states E r rest w1 of
                         (ys, x, w2) \<Rightarrow> (job_state # ys, x, w2)))
           else (case get_filtered_job_states E r rest w of
                   (ys, x, w2) \<Rightarrow> (job_state # ys, x, w2)))
        else get_filtered_job_states E r rest w)"

subsection \<open>The rule of section 4.2 for what is left out of a report\<close>

text \<open>
  Written from the specification: a job state is excluded if its verb is
  \<^verbatim>\<open>changed,no_report\<close>, or one of \<^verbatim>\<open>unchanged\<close>, \<^verbatim>\<open>new\<close>, \<^verbatim>\<open>error\<close> with the display flag
  of that verb disabled, or \<^verbatim>\<open>changed\<close> with the display of empty diffs disabled and a
  diff, computed with the report's time zone, that is the empty string.
\<close>

definition excluded :: "env \<Rightarrow> report \<Rightarrow> world \<Rightarrow> jobstate \<Rightarrow> bool" where
  "excluded E r w s =
    (verb s = Some ''changed,no_report''
     \<or> (verb s = Some ''unchanged'' \<and> \<not> display_unchanged (config_display (config r)))
     \<or> (verb s = Some ''new'' \<and> \<not> display_new (config_display (config r)))
     \<or> (verb s = Some ''error'' \<and> \<not> display_error (config_display (config r)))
     \<or> (verb s = Some ''changed'' \<and> \<not> display_empty_diff (config_display (config r))
        \<and> fst (get_diff E s Text None (tz r) w) = Inr (Str [])))"

text \<open>The diff of a job state is needed when it is \<^verbatim>\<open>changed\<close> and empty diffs are not shown.\<close>

definition needs_diff :: "report \<Rightarrow> jobstate \<Rightarrow> bool" where
  "needs_diff r s =
    (verb s = Some ''changed'' \<and> \<not> display_empty_diff (config_display (config r)))"

text \<open>Two job states whose memoization dictionaries are different objects.\<close>

definition separate :: "jobstate \<Rightarrow> jobstate \<Rightarrow> bool" where
  "separate s t =
    (generated_diff s \<noteq> generated_diff t \<and> generated_diff s \<noteq> unfiltered_diff t
     \<and> unfiltered_diff s \<noteq> generated_diff t \<and> unfiltered_diff s \<noteq> unfiltered_diff t)"

subsection \<open>The part of the heap that \<^verbatim>\<open>get_diff\<close> reads and writes\<close>

text \<open>Two worlds that a job state cannot tell apart: its two dictionaries are the same.\<close>

definition agree :: "jobstate \<Rightarrow> world \<Rightarrow> world \<Rightarrow> bool" where
  "agree s w w' =
    (length (objs w) = length (objs w')
     \<and> objs w ! generated_diff s = objs w' ! generated_diff s
     \<and> objs w ! unfiltered_diff s = objs w' ! unfiltered_diff s)"

text \<open>A later world that differs from \<open>w\<close> in the two dictionaries of \<open>t\<close> at most.\<close>

definition frame :: "jobstate \<Rightarrow> world \<Rightarrow> world \<Rightarrow> bool" where
  "frame t w w1 =
    (length (objs w1) = length (objs w)
     \<and> (\<forall>a. a \<noteq> generated_diff t \<and> a \<noteq> unfiltered_diff t \<longrightarrow> objs w1 ! a = objs w ! a))"

subsection \<open>An example run\<close>

text \<open>
  A job with one filter, a store that holds one snapshot with two failed tries, and
  collaborators whose outcome for retrieval, error formatting and error ignoring is given.
\<close>

definition example_job :: job where
  "example_job = \<lparr>index_number = 1, compared_versions = None, job_filter = [(''strip'', [])],
     diff_filter = [], differ = None, is_markdown = False\<rparr>"

definition example_env ::
  "(exn + payload \<times> string \<times> string) \<Rightarrow> (exn \<Rightarrow> exn + string) \<Rightarrow> (exn \<Rightarrow> exn + bool_or_str) \<Rightarrow>
   string option \<Rightarrow> env" where
  "example_env ret fmt ign pyc =
    \<lparr>get_guid = (\<lambda>j. Inr ''0a1b''),
     snapshots_db_load = (\<lambda>saved g. Inr (Snapshot (Str ''old'') 100 2 ''e0'' ''text/plain'')),
     get_history_snapshots = (\<lambda>saved g n. Inr []),
     snapshots_db_save = (\<lambda>saved g sn. None),
     retrieve = (\<lambda>j s h. ret),
     format_error = (\<lambda>j e tb. fmt e),
     ignore_error = (\<lambda>j e. ign e),
     auto_process = (\<lambda>s d m. Inr (d, m)),
     normalize_filter_list = (\<lambda>f i. Inr (map (\<lambda>p. (fst p, [p])) f)),
     FilterBase_process = (\<lambda>k sub s d m. Inr (d, ''text/'' @ k)),
     normalize_differ = (\<lambda>d i. Inr (''unified'', [])),
     DifferBase_process = (\<lambda>k sub s rk tz u.
        if Some (old_data s) = new_data s
        then Inr [(Text, Str []), (Markdown, Str []), (Html, Str [])]
        else Inr [(Text, Str ''+new''), (Markdown, Str ''+new''), (Html, Str ''+new'')]),
     now = (\<lambda>n. 200 + real n),
     format_exc = (\<lambda>e. ''Traceback''),
     getenv = (\<lambda>k. if k = ''PYCHARM_HOSTED'' then pyc else None),
     ZoneInfo = (\<lambda>name. Inr name)\<rparr>"

definition example_classes :: class_attrs where
  "example_classes =
    fst (handler_module \<lparr>objs = [], clock = 0, db_saves = [], differ_calls = []\<rparr>)"

definition example_world :: world where
  "example_world =
    snd (handler_module \<lparr>objs = [], clock = 0, db_saves = [], differ_calls = []\<rparr>)"

definition example_state :: jobstate where
  "example_state = fst (JobState_init example_classes example_job example_world)"

definition example_world1 :: world where
  "example_world1 = snd (JobState_init example_classes example_job example_world)"

text \<open>A second job state, created after the first.\<close>

definition example_state2 :: jobstate where
  "example_state2 = fst (JobState_init example_classes example_job example_world1)"

definition example_world2 :: world where
  "example_world2 = snd (JobState_init example_classes example_job example_world1)"

definition example_config :: config where
  "example_config =
    \<lparr>config_display = \<lparr>display_new = True, display_error = True, display_unchanged = False,
                        display_empty_diff = False\<rparr>,
     config_report_tz = Some (Some ''Etc/UTC'')\<rparr>"

text \<open>A retrieval that succeeds.\<close>

definition env_success :: env where
  "env_success = example_env (Inr (Str ''page'', ''e1'', ''text/html'')) (\<lambda>e. Inr ''failed'')
     (\<lambda>e. Inr (B False)) None"

text \<open>A retrieval that times out; the job formats the error and does not ignore it.\<close>

definition env_timeout :: env where
  "env_timeout = example_env (Inl (Exn OtherError ''timeout'')) (\<lambda>e. Inr ''failed'')
     (\<lambda>e. Inr (B False)) None"

text \<open>A retrieval that reports "not modified".\<close>

definition env_not_modified :: env where
  "env_not_modified = example_env (Inl (Exn NotModifiedError ''304'')) (\<lambda>e. Inr ''unchanged'')
     (\<lambda>e. Inr (B False)) None"

text \<open>
  A retrieval that reports "not modified" and a \<^verbatim>\<open>format_error\<close> that fails on that
  signal, and on nothing else.
\<close>

definition env_not_modified_hook_fails :: env where
  "env_not_modified_hook_fails = example_env (Inl (Exn NotModifiedError ''304''))
     (\<lambda>e. if is_NotModifiedError e then Inl (Exn KeyError ''hook'') else Inr ''failed'')
     (\<lambda>e. Inr (B False)) None"

text \<open>A retrieval that times out and an \<^verbatim>\<open>ignore_error\<close> that raises "not modified".\<close>

definition env_hook_not_modified :: env where
  "env_hook_not_modified = example_env (Inl (Exn OtherError ''timeout'')) (\<lambda>e. Inr ''failed'')
     (\<lambda>e. Inl (Exn NotModifiedError ''304'')) None"

text \<open>A retrieval that times out and a \<^verbatim>\<open>format_error\<close> that fails on the timeout.\<close>

definition env_hook_fails :: env where
  "env_hook_fails = example_env (Inl (Exn OtherError ''timeout''))
     (\<lambda>e. if e = Exn OtherError ''timeout'' then Inl (Exn KeyError ''hook'') else Inr ''failed'')
     (\<lambda>e. Inr (B True)) None"

text \<open>The same failure with \<^verbatim>\<open>PYCHARM_HOSTED=1\<close> in the environment.\<close>

definition env_pycharm :: env where
  "env_pycharm = example_env (Inl (Exn OtherError ''timeout''))
     (\<lambda>e. if e = Exn OtherError ''timeout'' then Inl (Exn KeyError ''hook'') else Inr ''failed'')
     (\<lambda>e. Inr (B True)) (Some ''1'')"

text \<open>The first job state after a failed run, after a successful run, and with new data set.\<close>

definition example_failed :: jobstate where
  "example_failed = fst (snd (process env_timeout True example_state example_world1))"

definition example_fetched :: jobstate where
  "example_fetched = fst (snd (process env_success True example_state example_world1))"

definition example_changed :: jobstate where
  "example_changed = example_state\<lparr>new_data := Some (Str ''page''), old_data := Str ''old''\<rparr>"

text \<open>Two reports, the second for a configuration without a time zone.\<close>

definition example_report :: report where
  "example_report = projr (Report_init env_success example_classes example_config)"

definition example_report2 :: report where
  "example_report2 =
    projr (Report_init env_success example_classes (example_config\<lparr>config_report_tz := None\<rparr>))"

text \<open>
  Four job states, each from the constructor: changed with new content, changed with the
  content it had, changed but not to be reported, and unchanged.
\<close>

definition example_states :: "jobstate list \<times> world" where
  "example_states =
    (let (a, w1) = JobState_init example_classes example_job example_world;
         (b, w2) = JobState_init example_classes example_job w1;
         (c, w3) = JobState_init example_classes example_job w2;
         (d, w4) = JobState_init example_classes example_job w3
     in ([a\<lparr>verb := Some ''changed'', new_data := Some (Str ''page'')\<rparr>,
          b\<lparr>verb := Some ''changed'', new_data := Some (Str [])\<rparr>,
          c\<lparr>verb := Some ''changed,no_report'', new_data := Some (Str ''page'')\<rparr>,
          d\<lparr>verb := Some ''unchanged'', new_data := Some (Str [])\<rparr>,
          a\<lparr>verb := Some ''changed'', new_data := Some (Str ''page'')\<rparr>], w4))"

section \<open>Properties\<close>

lemmas example_defs = example_job_def example_env_def example_world_def example_classes_def
  example_state_def example_world1_def example_state2_def example_world2_def
  handler_module_def JobState_init_def alloc_def env_success_def env_timeout_def
  env_not_modified_def env_hook_not_modified_def env_hook_fails_def env_pycharm_def
  example_failed_def example_fetched_def example_changed_def env_not_modified_hook_fails_def

lemmas diff_defs = get_diff_def get_diff_miss_def compute_diff_def run_differ_def filter_diff_def
  not_in_unfiltered_def dict_at_def dict_put_def is_new_dict_def differ_or_def

lemmas run_defs = process_def process_try_def process_except_def process_except_outer_def
  load_def time_time_def pycharm_hosted_def Let_def

subsection \<open>What the steps of process leave alone\<close>

lemma load_keeps: "load E s w = (r, s1, w1) \<Longrightarrow> job s1 = job s \<and> exception s1 = exception s"
  by (auto simp: load_def alloc_def Let_def split: sum.splits option.splits if_splits prod.splits)

lemma load_tries: "load E s w = (Inr u, s1, w1) \<Longrightarrow> tries s1 = snapshot.tries (old_snapshot s1)"
  by (auto simp: load_def alloc_def Let_def split: sum.splits option.splits if_splits prod.splits)

lemma process_try_keeps:
  assumes "load E s w = (Inr u, s1, w1)" and "process_try E h s w = (r, s2, w2)"
  shows "job s2 = job s \<and> exception s2 = exception s \<and> tries s2 = tries s1
     \<and> old_snapshot s2 = old_snapshot s1"
  using assms load_keeps[OF assms(1)]
  by (auto simp: process_try_def time_time_def Let_def split: sum.splits prod.splits)

lemma process_try_job:
  assumes "process_try E h s w = (r, s2, w2)"
  shows "job s2 = job s"
proof -
  obtain rl s1 w1 where l: "load E s w = (rl, s1, w1)" by (cases "load E s w") auto
  from load_keeps[OF l] assms l show ?thesis
    by (auto simp: process_try_def time_time_def Let_def split: sum.splits prod.splits)
qed

lemma process_except_keeps:
  assumes "process_except E e s w = (r, s1, w1)"
  shows "job s1 = job s \<and> old_snapshot s1 = old_snapshot s \<and> exception s1 = Some e
     \<and> (case r of Inl e2 \<Rightarrow> tries s1 = tries s
         | Inr u \<Rightarrow> is_NotModifiedError e \<longrightarrow> tries s1 = tries s)"
  using assms
  by (auto simp: process_except_def time_time_def Let_def split: sum.splits prod.splits if_splits)

lemma process_except_outer_keeps:
  assumes "process_except_outer E e s w = (r, s1, w1)"
  shows "job s1 = job s \<and> old_snapshot s1 = old_snapshot s
     \<and> (is_NotModifiedError e \<longrightarrow> tries s1 = tries s)"
  using assms
  by (auto simp: process_except_outer_def Let_def split: sum.splits prod.splits if_splits)

subsection \<open>Errors in a run\<close>



text \<open>
  C2, as stated, fails: retrieval raises a \<^verbatim>\<open>NotModifiedError\<close>, the job's
  \<^verbatim>\<open>format_error\<close> raises a \<^verbatim>\<open>KeyError\<close> while the inner handler formats it (line 218),
  and the outer handler, which tests the \<^verbatim>\<open>KeyError\<close> (line 233), increments
  \<^verbatim>\<open>tries\<close> (line 234). The run raised a \<^verbatim>\<open>NotModifiedError\<close>, and \<^verbatim>\<open>tries\<close> is 3 where
  the loaded snapshot has 2.
\<close>

theorem process_not_modified_counterexample:
  "fst (process env_not_modified_hook_fails True example_state example_world1) = Inr ()
   \<and> snapshot.tries (old_snapshot
        (fst (snd (process env_not_modified_hook_fails True example_state example_world1)))) = 2
   \<and> tries (fst (snd (process env_not_modified_hook_fails True example_state example_world1)))
       = 3
   \<and> exception (fst (snd (process env_not_modified_hook_fails True example_state example_world1)))
       = Some (Exn KeyError ''hook'')
   \<and> fst (process_try env_not_modified_hook_fails True example_state example_world1)
       = Inl (Exn NotModifiedError ''304'')"
  by (simp add: example_defs run_defs)

text \<open>
  C2, amended. A run starts without a pending exception and loads its snapshot; retrieval
  or filtering then raises \<open>e\<close>, which the inner handler takes. If the inner handler
  completes and \<open>e\<close> is a \<^verbatim>\<open>NotModifiedError\<close>, or if the inner handler itself raises a
  \<^verbatim>\<open>NotModifiedError\<close>, which the outer handler takes, then after \<^verbatim>\<open>process\<close> the value
  of \<^verbatim>\<open>tries\<close> is the tries of the loaded \<^verbatim>\<open>old_snapshot\<close>: whatever \<^verbatim>\<open>ignore_error\<close>
  returns, and whether \<^verbatim>\<open>process\<close> returns or raises again. A hook that raises another
  exception while a \<^verbatim>\<open>NotModifiedError\<close> is handled is left out.
\<close>

theorem process_not_modified_keeps_tries:
  assumes "exception s = None"
    and "load E s w = (Inr (), s1, w1)"
    and "process_try E headless s w = (Inl e, s2, w2)"
    and "process_except E e s2 w2 = (r, s3, w3)"
    and "case r of Inr u \<Rightarrow> is_NotModifiedError e | Inl e2 \<Rightarrow> is_NotModifiedError e2"
  shows "case process E headless s w of (r', s', w') \<Rightarrow>
           old_snapshot s' = old_snapshot s1 \<and> tries s' = snapshot.tries (old_snapshot s')"
proof -
  from process_try_keeps[OF assms(2,3)] load_tries[OF assms(2)]
  have k: "tries s2 = snapshot.tries (old_snapshot s1)" "old_snapshot s2 = old_snapshot s1"
    by simp_all
  from process_except_keeps[OF assms(4)]
  have k3: "old_snapshot s3 = old_snapshot s2"
    "case r of Inl e2 \<Rightarrow> tries s3 = tries s2
     | Inr u \<Rightarrow> is_NotModifiedError e \<longrightarrow> tries s3 = tries s2"
    by simp_all
  show ?thesis
  proof (cases r)
    case (Inr u)
    with assms(1,3,4,5) k k3 show ?thesis by (simp add: process_def)
  next
    case (Inl e2)
    obtain r4 s4 w4 where o: "process_except_outer E e2 s3 w3 = (r4, s4, w4)"
      by (cases "process_except_outer E e2 s3 w3") auto
    from process_except_outer_keeps[OF o] Inl assms(5)
    have "old_snapshot s4 = old_snapshot s3" "tries s4 = tries s3" by simp_all
    with Inl assms(1,3,4) k k3 o show ?thesis by (simp add: process_def)
  qed
qed

theorem process_not_modified_keeps_tries_witness:
  "snapshot.tries
     (old_snapshot (fst (snd (process env_not_modified True example_state example_world1)))) = 2
   \<and> tries (fst (snd (process env_not_modified True example_state example_world1))) = 2
   \<and> snapshot.tries
     (old_snapshot (fst (snd (process env_hook_not_modified True example_state example_world1))))
       = 2
   \<and> tries (fst (snd (process env_hook_not_modified True example_state example_world1))) = 2"
proof -
  let ?E = "env_not_modified"
  let ?F = "env_hook_not_modified"
  have h1: "exception example_state = None" by (simp add: example_defs)
  obtain s1 w1 where h2: "load ?E example_state example_world1 = (Inr (), s1, w1)"
    by (simp add: example_defs run_defs)
  obtain s2 w2 where
    h3: "process_try ?E True example_state example_world1
          = (Inl (Exn NotModifiedError ''304''), s2, w2)"
    by (simp add: example_defs run_defs)
  obtain s3 w3 where
    h4: "process_except ?E (Exn NotModifiedError ''304'') s2 w2 = (Inr (), s3, w3)"
    by (simp add: example_defs run_defs)
  have s1: "snapshot.tries (old_snapshot s1) = 2"
    using h2 by (auto simp add: example_defs run_defs)
  have a: "case process ?E True example_state example_world1 of
     (r, s', w') \<Rightarrow> snapshot.tries (old_snapshot s') = 2 \<and> tries s' = 2"
    using process_not_modified_keeps_tries[OF h1 h2 h3 h4] s1
    by (auto split: prod.splits)
  obtain t1 v1 where g2: "load ?F example_state example_world1 = (Inr (), t1, v1)"
    by (simp add: example_defs run_defs)
  obtain t2 v2 where
    g3: "process_try ?F True example_state example_world1
          = (Inl (Exn OtherError ''timeout''), t2, v2)"
    by (simp add: example_defs run_defs)
  obtain t3 v3 where
    g4: "process_except ?F (Exn OtherError ''timeout'') t2 v2
          = (Inl (Exn NotModifiedError ''304''), t3, v3)"
    by (simp add: example_defs run_defs)
  have t1: "snapshot.tries (old_snapshot t1) = 2"
    using g2 by (auto simp add: example_defs run_defs)
  have b: "case process ?F True example_state example_world1 of
     (r, s', w') \<Rightarrow> snapshot.tries (old_snapshot s') = 2 \<and> tries s' = 2"
    using process_not_modified_keeps_tries[OF h1 g2 g3 g4] t1
    by (auto split: prod.splits)
  from a b show ?thesis by (auto split: prod.splits)
qed

subsection \<open>A run without errors\<close>



subsection \<open>The outer handler\<close>

text \<open>
  C7, as stated, fails: with \<^verbatim>\<open>PYCHARM_HOSTED=1\<close>, retrieval that raises and a
  \<^verbatim>\<open>format_error\<close> that raises in the inner handler, \<^verbatim>\<open>process\<close> raises the hook's
  exception: \<^verbatim>\<open>exception\<close> is still the retrieval's, \<^verbatim>\<open>error_ignored\<close> is not set and
  \<^verbatim>\<open>tries\<close> is not incremented.
\<close>

theorem process_outer_recovery_counterexample:
  "fst (process env_pycharm True example_state example_world1) = Inl (Exn KeyError ''hook'')
   \<and> exception (fst (snd (process env_pycharm True example_state example_world1)))
       = Some (Exn OtherError ''timeout'')
   \<and> error_ignored (fst (snd (process env_pycharm True example_state example_world1))) = None
   \<and> tries (fst (snd (process env_pycharm True example_state example_world1))) = 2
   \<and> snapshot.tries
       (old_snapshot (fst (snd (process env_pycharm True example_state example_world1)))) = 2"
  by (simp add: example_defs run_defs)

text \<open>
  C7, amended. A run starts without a pending exception, a step raises \<open>e1\<close>, and the inner
  handler (the job's \<^verbatim>\<open>format_error\<close> or \<^verbatim>\<open>ignore_error\<close>) raises \<open>e\<close>. If
  \<^verbatim>\<open>PYCHARM_HOSTED\<close> is unset or empty and the job's \<^verbatim>\<open>format_error\<close> returns \<open>tb\<close> for
  \<open>e\<close>, then \<^verbatim>\<open>process\<close> returns: \<^verbatim>\<open>exception\<close> is \<open>e\<close>, \<^verbatim>\<open>traceback\<close> is \<open>tb\<close>,
  \<^verbatim>\<open>error_ignored\<close> is \<^verbatim>\<open>False\<close>, and \<^verbatim>\<open>tries\<close> is one more than after the failed step
  unless \<open>e\<close> is a \<^verbatim>\<open>NotModifiedError\<close>, when it is unchanged.
\<close>

theorem process_outer_recovery:
  assumes "exception s = None"
    and "process_try E headless s w = (Inl e1, s2, w2)"
    and "process_except E e1 s2 w2 = (Inl e, s3, w3)"
    and "\<not> pycharm_hosted E"
    and "format_error E (job s) e (format_exc E e) = Inr tb"
  shows "process E headless s w =
           (Inr (),
            s3\<lparr>exception := Some e, traceback := Some tb, error_ignored := Some (B False),
               tries := (if is_NotModifiedError e then tries s2 else tries s2 + 1)\<rparr>,
            w3)"
proof -
  have j: "job s3 = job s" "tries s3 = tries s2"
    using process_try_job[OF assms(2)] assms(3)
    by (auto simp: process_except_def time_time_def Let_def
        split: sum.splits prod.splits if_splits)
  show ?thesis
    using assms j by (simp add: process_def process_except_outer_def Let_def)
qed

theorem process_outer_recovery_witness:
  "process env_hook_fails True example_state example_world1
   = (Inr (),
      example_state\<lparr>old_snapshot := Snapshot (Str ''old'') 100 2 ''e0'' ''text/plain'',
        old_data := Str ''old'', old_timestamp := 100, old_etag := ''e0'',
        new_timestamp := Some 201, exception := Some (Exn KeyError ''hook''),
        traceback := Some ''failed'', error_ignored := Some (B False), tries := 3\<rparr>,
      example_world1\<lparr>clock := 2\<rparr>)"
proof -
  let ?E = "env_hook_fails"
  let ?s2 = "example_state\<lparr>old_snapshot := Snapshot (Str ''old'') 100 2 ''e0'' ''text/plain'',
        old_data := Str ''old'', old_timestamp := 100, old_etag := ''e0'', tries := 2,
        new_timestamp := Some 200\<rparr>"
  have h1: "exception example_state = None" by (simp add: example_defs)
  have h2: "process_try ?E True example_state example_world1
      = (Inl (Exn OtherError ''timeout''), ?s2, example_world1\<lparr>clock := 1\<rparr>)"
    by (simp add: example_defs run_defs)
  have h3: "process_except ?E (Exn OtherError ''timeout'') ?s2 (example_world1\<lparr>clock := 1\<rparr>)
      = (Inl (Exn KeyError ''hook''),
         ?s2\<lparr>new_timestamp := Some 201, exception := Some (Exn OtherError ''timeout'')\<rparr>,
         example_world1\<lparr>clock := 2\<rparr>)"
    by (simp add: example_defs run_defs)
  have h4: "\<not> pycharm_hosted ?E" by (simp add: example_defs run_defs)
  have h5: "format_error ?E (job example_state) (Exn KeyError ''hook'')
      (format_exc ?E (Exn KeyError ''hook'')) = Inr ''failed''"
    by (simp add: example_defs)
  show ?thesis
    using process_outer_recovery[OF h1 h2 h3 h4 h5]
    by (simp add: example_defs)
qed

text \<open>
  C10. A run starts without a pending exception, a step raises \<open>e1\<close>, and the inner handler
  raises \<open>e\<close>. If \<^verbatim>\<open>PYCHARM_HOSTED\<close> is set to a non-empty value, \<^verbatim>\<open>process\<close> raises \<open>e\<close>
  and the state is as the inner handler left it: \<^verbatim>\<open>exception\<close> is \<open>e1\<close>,
  \<^verbatim>\<open>error_ignored\<close> and \<^verbatim>\<open>tries\<close> are as after the failed step. Otherwise \<^verbatim>\<open>process\<close> is
  the outer recovery, which sets \<^verbatim>\<open>exception\<close> to \<open>e\<close>.
\<close>

theorem process_pycharm_hosted_reraises:
  assumes "exception s = None"
    and "process_try E headless s w = (Inl e1, s2, w2)"
    and "process_except E e1 s2 w2 = (Inl e, s3, w3)"
  shows "if (\<exists>v. getenv E ''PYCHARM_HOSTED'' = Some v \<and> v \<noteq> [])
         then process E headless s w = (Inl e, s3, w3)
            \<and> exception s3 = Some e1 \<and> error_ignored s3 = error_ignored s2
            \<and> tries s3 = tries s2
         else process E headless s w = process_except_outer E e s3 w3
            \<and> exception (fst (snd (process E headless s w))) = Some e"
proof -
  have j: "exception s3 = Some e1" "error_ignored s3 = error_ignored s2" "tries s3 = tries s2"
    using assms(3)
    by (auto simp: process_except_def time_time_def Let_def
        split: sum.splits prod.splits if_splits)
  have p: "pycharm_hosted E = (\<exists>v. getenv E ''PYCHARM_HOSTED'' = Some v \<and> v \<noteq> [])"
    by (auto simp: pycharm_hosted_def split: option.splits)
  have q: "process E headless s w = process_except_outer E e s3 w3"
    using assms by (simp add: process_def)
  show ?thesis
    using q j p by (auto simp: process_except_outer_def Let_def split: sum.splits)
qed

theorem process_pycharm_hosted_reraises_witness:
  "process env_pycharm True example_state example_world1
   = (Inl (Exn KeyError ''hook''),
      example_state\<lparr>old_snapshot := Snapshot (Str ''old'') 100 2 ''e0'' ''text/plain'',
        old_data := Str ''old'', old_timestamp := 100, old_etag := ''e0'', tries := 2,
        new_timestamp := Some 201, exception := Some (Exn OtherError ''timeout'')\<rparr>,
      example_world1\<lparr>clock := 2\<rparr>)"
proof -
  let ?E = "env_pycharm"
  let ?s2 = "example_state\<lparr>old_snapshot := Snapshot (Str ''old'') 100 2 ''e0'' ''text/plain'',
        old_data := Str ''old'', old_timestamp := 100, old_etag := ''e0'', tries := 2,
        new_timestamp := Some 200\<rparr>"
  have h1: "exception example_state = None" by (simp add: example_defs)
  have h2: "process_try ?E True example_state example_world1
      = (Inl (Exn OtherError ''timeout''), ?s2, example_world1\<lparr>clock := 1\<rparr>)"
    by (simp add: example_defs run_defs)
  have h3: "process_except ?E (Exn OtherError ''timeout'') ?s2 (example_world1\<lparr>clock := 1\<rparr>)
      = (Inl (Exn KeyError ''hook''),
         ?s2\<lparr>new_timestamp := Some 201, exception := Some (Exn OtherError ''timeout'')\<rparr>,
         example_world1\<lparr>clock := 2\<rparr>)"
    by (simp add: example_defs run_defs)
  have h4: "\<exists>v. getenv ?E ''PYCHARM_HOSTED'' = Some v \<and> v \<noteq> []"
    by (simp add: example_defs)
  show ?thesis
    using process_pycharm_hosted_reraises[OF h1 h2 h3] h4
    by (simp add: example_defs)
qed

subsection \<open>Saving\<close>

text \<open>
  C6. For a job state whose \<^verbatim>\<open>new_timestamp\<close> is set and, unless \<^verbatim>\<open>use_old_data\<close> is
  given, whose \<^verbatim>\<open>new_data\<close> and \<^verbatim>\<open>new_etag\<close> are set, and whose job has the GUID
  \<open>guid\<close>: \<^verbatim>\<open>save(use_old_data)\<close> first copies \<^verbatim>\<open>old_data\<close>, \<^verbatim>\<open>old_etag\<close> and
  \<^verbatim>\<open>old_mime_type\<close> into the new fields if \<^verbatim>\<open>use_old_data\<close> is given and changes nothing
  otherwise, and then calls the store's \<^verbatim>\<open>save\<close> once, for \<open>guid\<close>, with the snapshot made
  of the current \<^verbatim>\<open>new_data\<close>, \<^verbatim>\<open>new_timestamp\<close>, \<^verbatim>\<open>tries\<close>, \<^verbatim>\<open>new_etag\<close> and
  \<^verbatim>\<open>new_mime_type\<close>; it raises only what the store raises.
\<close>

theorem save_writes_snapshot:
  assumes "new_timestamp s = Some t"
    and "use_old_data \<or> (new_data s \<noteq> None \<and> new_etag s \<noteq> None)"
    and "get_guid E (job s) = Inr guid"
  shows "case save E use_old_data s w of (r, s', w') \<Rightarrow>
           s' = (if use_old_data
                 then s\<lparr>new_data := Some (old_data s), new_etag := Some (old_etag s),
                        new_mime_type := old_mime_type s\<rparr>
                 else s)
         \<and> new_data s' \<noteq> None \<and> new_timestamp s' \<noteq> None \<and> new_etag s' \<noteq> None
         \<and> w' = w\<lparr>db_saves := db_saves w @
                  [(guid, Snapshot (the (new_data s')) (the (new_timestamp s')) (tries s')
                            (the (new_etag s')) (new_mime_type s'))]\<rparr>
         \<and> r = (case snapshots_db_save E (db_saves w) guid
                        (Snapshot (the (new_data s')) (the (new_timestamp s')) (tries s')
                            (the (new_etag s')) (new_mime_type s')) of
                  None \<Rightarrow> Inr () | Some e \<Rightarrow> Inl e)"
  using assms
  by (auto simp: save_def getattr_def Let_def split: option.splits sum.splits)

theorem save_writes_snapshot_witness:
  "save env_timeout True example_failed example_world1
     = (Inr (),
        example_failed\<lparr>new_data := Some (Str ''old''), new_etag := Some ''e0'',
          new_mime_type := ''text/plain''\<rparr>,
        example_world1\<lparr>db_saves :=
          [(''0a1b'', Snapshot (Str ''old'') 201 3 ''e0'' ''text/plain'')]\<rparr>)
   \<and> save env_success False example_fetched example_world1
     = (Inr (), example_fetched,
        example_world1\<lparr>db_saves :=
          [(''0a1b'', Snapshot (Str ''page'') 200 2 ''e1'' ''text/strip'')]\<rparr>)"
proof -
  have f: "new_timestamp example_failed = Some 201"
    by (simp add: example_defs run_defs)
  have f2: "True \<or> (new_data example_failed \<noteq> None \<and> new_etag example_failed \<noteq> None)"
    by simp
  have fg: "get_guid env_timeout (job example_failed) = Inr ''0a1b''"
    by (simp add: example_defs)
  have g: "new_timestamp example_fetched = Some 200"
    by (simp add: example_defs run_defs)
  have g2: "False \<or> (new_data example_fetched \<noteq> None \<and> new_etag example_fetched \<noteq> None)"
    by (simp add: example_defs run_defs)
  have gg: "get_guid env_success (job example_fetched) = Inr ''0a1b''"
    by (simp add: example_defs)
  have a: "save env_timeout True example_failed example_world1
     = (Inr (),
        example_failed\<lparr>new_data := Some (Str ''old''), new_etag := Some ''e0'',
          new_mime_type := ''text/plain''\<rparr>,
        example_world1\<lparr>db_saves :=
          [(''0a1b'', Snapshot (Str ''old'') 201 3 ''e0'' ''text/plain'')]\<rparr>)"
    using save_writes_snapshot[OF f f2 fg, of example_world1]
    by (simp add: example_defs run_defs split: prod.splits)
  have b: "save env_success False example_fetched example_world1
     = (Inr (), example_fetched,
        example_world1\<lparr>db_saves :=
          [(''0a1b'', Snapshot (Str ''page'') 200 2 ''e1'' ''text/strip'')]\<rparr>)"
    using save_writes_snapshot[OF g g2 gg, of example_world1]
    by (simp add: example_defs run_defs split: prod.splits)
  from a b show ?thesis by simp
qed

subsection \<open>Memoization of \<^verbatim>\<open>get_diff\<close>\<close>

lemma map_of_dict_set: "map_of (dict_set k v d) k = Some v"
  by (induction d) auto

lemma dict_at_valid: "dict_at w a = Inr d \<Longrightarrow> a < length (objs w) \<and> objs w ! a = DiffDict d"
  by (auto simp: dict_at_def split: if_splits obj.splits)

lemma valid_not_new: "a < length (objs w) \<Longrightarrow> \<not> is_new_dict w a"
  by (simp add: is_new_dict_def alloc_def)

lemma filter_diff_cached:
  assumes "filter_diff E s k w = (Inr v, w1)"
  shows "\<exists>g. dict_at w1 (generated_diff s) = Inr g \<and> map_of g k = Some v"
  using assms
  by (auto simp: filter_diff_def Let_def split: sum.splits option.splits prod.splits if_splits)

lemma get_diff_cached:
  assumes "get_diff E s k da zone w = (Inr v, w1)"
  shows "\<exists>g. dict_at w1 (generated_diff s) = Inr g \<and> map_of g k = Some v"
  using assms filter_diff_cached
  by (auto simp: get_diff_def get_diff_miss_def compute_diff_def Let_def
      split: sum.splits option.splits prod.splits if_splits)

lemma get_diff_hit:
  assumes "dict_at w (generated_diff s) = Inr g" and "map_of g k = Some v"
  shows "get_diff E s k da zone w = (Inr v, w)"
  using assms valid_not_new[of "generated_diff s" w] dict_at_valid[OF assms(1)]
  by (simp add: get_diff_def)

lemma get_diff_again:
  assumes "get_diff E s k da zone w = (Inr v, w1)"
  shows "get_diff E s k da2 zone2 w1 = (Inr v, w1)"
proof -
  from get_diff_cached[OF assms] obtain g where
    "dict_at w1 (generated_diff s) = Inr g" "map_of g k = Some v" by blast
  then show ?thesis by (rule get_diff_hit)
qed

text \<open>
  C4. If a call of \<^verbatim>\<open>get_diff\<close> for a report kind returns the string \<open>v\<close>, then a second
  call for the same report kind, whatever its differ and time zone arguments, returns
  \<open>v\<close> and leaves the world as it is: nothing is added to the calls of
  \<^verbatim>\<open>DifferBase.process\<close>.
\<close>

theorem get_diff_memoized:
  assumes "get_diff E s report_kind differ_arg zone w = (Inr v, w1)"
  shows "get_diff E s report_kind differ_arg2 zone2 w1 = (Inr v, w1)
       \<and> differ_calls (snd (get_diff E s report_kind differ_arg2 zone2 w1)) = differ_calls w1"
proof -
  from get_diff_cached[OF assms] obtain g where
    "dict_at w1 (generated_diff s) = Inr g" "map_of g report_kind = Some v" by blast
  then have "get_diff E s report_kind differ_arg2 zone2 w1 = (Inr v, w1)"
    by (rule get_diff_hit)
  then show ?thesis by simp
qed

theorem get_diff_memoized_witness:
  "get_diff env_success example_changed Text None None
     (snd (get_diff env_success example_changed Text None None example_world1))
   = (Inr (Str ''+new''),
      example_world1\<lparr>objs := [HistDict [], DiffDict [], JobStateList [],
          DiffDict [(Text, Str ''+new'')],
          DiffDict [(Text, Str ''+new''), (Markdown, Str ''+new''), (Html, Str ''+new'')]],
        differ_calls := [(''unified'', Text)]\<rparr>)"
proof -
  have h: "get_diff env_success example_changed Text None None example_world1
    = (Inr (Str ''+new''),
      example_world1\<lparr>objs := [HistDict [], DiffDict [], JobStateList [],
          DiffDict [(Text, Str ''+new'')],
          DiffDict [(Text, Str ''+new''), (Markdown, Str ''+new''), (Html, Str ''+new'')]],
        differ_calls := [(''unified'', Text)]\<rparr>)"
    by (simp add: example_defs diff_defs)
  show ?thesis
    using get_diff_memoized[OF h, of None None] h by simp
qed

text \<open>
  C9. For a job state whose \<^verbatim>\<open>generated_diff\<close> refers to an object of the heap, the test
  \<^verbatim>\<open>self.generated_diff is {}\<close> is false (so \<^verbatim>\<open>is not {}\<close> is true), and \<^verbatim>\<open>get_diff\<close>
  returns what the variant without the two identity tests returns, with the same world.
\<close>

theorem get_diff_identity_guard:
  assumes "generated_diff s < length (objs w)"
  shows "\<not> is_new_dict w (generated_diff s)
       \<and> get_diff E s report_kind differ_arg zone w
         = get_diff_simplified E s report_kind differ_arg zone w"
  using valid_not_new[OF assms]
  by (simp add: get_diff_def get_diff_simplified_def get_diff_miss_def
      split: sum.splits option.splits)

theorem get_diff_identity_guard_witness:
  "\<not> is_new_dict example_world1 (generated_diff example_changed)
   \<and> get_diff env_success example_changed Text None None example_world1
     = get_diff_simplified env_success example_changed Text None None example_world1
   \<and> fst (get_diff_simplified env_success example_changed Text None None example_world1)
     = Inr (Str ''+new'')"
proof -
  have h: "generated_diff example_changed < length (objs example_world1)"
    by (simp add: example_defs)
  have g: "fst (get_diff env_success example_changed Text None None example_world1)
     = Inr (Str ''+new'')"
    by (simp add: example_defs diff_defs)
  show ?thesis
    using get_diff_identity_guard[OF h, of env_success Text None None] g by simp
qed

subsection \<open>What \<^verbatim>\<open>get_diff\<close> depends on and what it changes\<close>

lemma agree_dict_at:
  assumes "agree s w w'"
  shows "dict_at w (generated_diff s) = dict_at w' (generated_diff s)"
    and "dict_at w (unfiltered_diff s) = dict_at w' (unfiltered_diff s)"
    and "is_new_dict w a = is_new_dict w' a"
  using assms by (simp_all add: agree_def dict_at_def is_new_dict_def alloc_def)

lemma nth_update_agree:
  "length xs = length ys \<Longrightarrow> xs ! i = ys ! i \<Longrightarrow> xs[a := v] ! i = ys[a := v] ! i"
  by (cases "a = i"; cases "i < length xs") (simp_all add: list_update_beyond)

lemma agree_dict_put:
  assumes "agree s w w'"
  shows "agree s (dict_put w a d) (dict_put w' a d)"
  using assms
  by (auto simp: agree_def dict_put_def intro: nth_update_agree)

lemma agree_differ_calls:
  "agree s w w' \<Longrightarrow> agree s (w\<lparr>differ_calls := x\<rparr>) (w'\<lparr>differ_calls := y\<rparr>)"
  by (simp add: agree_def)

lemma dict_at_differ_calls [simp]: "dict_at (w\<lparr>differ_calls := x\<rparr>) a = dict_at w a"
  by (simp add: dict_at_def)

lemma dict_at_put_same:
  "dict_at (dict_put w a d) a
     = (if a < length (objs w) then Inr d else Inl (Exn TypeError ''dict''))"
  by (simp add: dict_at_def dict_put_def)

lemma agree_run_differ:
  assumes "agree s w w'"
  shows "fst (run_differ E s k da zone w) = fst (run_differ E s k da zone w')
       \<and> agree s (snd (run_differ E s k da zone w)) (snd (run_differ E s k da zone w'))"
proof (cases "normalize_differ E (differ_or da (differ (job s))) (index_number (job s))")
  case (Inl e)
  then show ?thesis using assms by (simp add: run_differ_def)
next
  case (Inr p)
  obtain dk sub where p: "p = (dk, sub)" by (cases p)
  let ?w1 = "w\<lparr>differ_calls := differ_calls w @ [(dk, k)]\<rparr>"
  let ?w2 = "w'\<lparr>differ_calls := differ_calls w' @ [(dk, k)]\<rparr>"
  have a: "agree s ?w1 ?w2" using assms by (rule agree_differ_calls)
  have d: "dict_at w' (unfiltered_diff s) = dict_at w (unfiltered_diff s)"
    by (rule agree_dict_at(2)[OF assms, symmetric])
  show ?thesis
  proof (cases "dict_at w (unfiltered_diff s)")
    case (Inl e)
    then have "dict_at w' (unfiltered_diff s) = Inl e" using d by simp
    with Inl Inr p a show ?thesis by (simp add: run_differ_def Let_def)
  next
    case u: (Inr u)
    then have u': "dict_at w' (unfiltered_diff s) = Inr u" using d by simp
    show ?thesis
    proof (cases "DifferBase_process E dk sub s k zone u")
      case (Inl e)
      with Inr p u u' a show ?thesis by (simp add: run_differ_def Let_def)
    next
      case r: (Inr r)
      from agree_dict_put[OF a] Inr p u u' r show ?thesis
        by (simp add: run_differ_def Let_def)
    qed
  qed
qed

lemma agree_filter_diff:
  assumes "agree s w w'"
  shows "fst (filter_diff E s k w) = fst (filter_diff E s k w')"
proof -
  have l: "length (objs w') = length (objs w)" using assms by (simp add: agree_def)
  have g: "dict_at w' (generated_diff s) = dict_at w (generated_diff s)"
    by (rule agree_dict_at(1)[OF assms, symmetric])
  have u: "dict_at w' (unfiltered_diff s) = dict_at w (unfiltered_diff s)"
    by (rule agree_dict_at(2)[OF assms, symmetric])
  show ?thesis
    unfolding filter_diff_def Let_def dict_at_put_same g u l
    by (simp split: sum.split option.split prod.split)
qed

lemma agree_compute_diff:
  assumes "agree s w w'"
  shows "fst (compute_diff E s k da zone w c) = fst (compute_diff E s k da zone w' c)"
proof (cases c)
  case False
  then show ?thesis using agree_filter_diff[OF assms] by (simp add: compute_diff_def)
next
  case True
  obtain r1 w1 where a: "run_differ E s k da zone w = (r1, w1)"
    by (cases "run_differ E s k da zone w") auto
  obtain r2 w2 where b: "run_differ E s k da zone w' = (r2, w2)"
    by (cases "run_differ E s k da zone w'") auto
  from agree_run_differ[OF assms, of E k da zone] a b
  have "r1 = r2" "agree s w1 w2" by simp_all
  with a b True agree_filter_diff[of s w1 w2 E k] show ?thesis
    by (simp add: compute_diff_def split: sum.splits)
qed

lemma agree_get_diff:
  assumes "agree s w w'"
  shows "fst (get_diff E s k da zone w) = fst (get_diff E s k da zone w')"
  using agree_dict_at[OF assms] agree_compute_diff[OF assms]
  by (simp add: get_diff_def get_diff_miss_def not_in_unfiltered_def
      split: sum.splits option.splits)


lemma frame_refl: "frame t w w"
  by (simp add: frame_def)

lemma frame_trans: "frame t w w1 \<Longrightarrow> frame t w1 w2 \<Longrightarrow> frame t w w2"
  by (simp add: frame_def)

lemma frame_put_generated: "frame t w (dict_put w (generated_diff t) d)"
  by (simp add: frame_def dict_put_def)

lemma frame_put_unfiltered: "frame t w (dict_put w (unfiltered_diff t) d)"
  by (simp add: frame_def dict_put_def)

lemma frame_differ_calls: "frame t w (w\<lparr>differ_calls := x\<rparr>)"
  by (simp add: frame_def)

lemma frame_run_differ: "frame t w (snd (run_differ E t k da zone w))"
proof -
  have "\<And>x d. frame t w (dict_put (w\<lparr>differ_calls := x\<rparr>) (unfiltered_diff t) d)"
    by (rule frame_trans[OF frame_differ_calls frame_put_unfiltered])
  then show ?thesis
    by (simp add: run_differ_def Let_def frame_refl frame_differ_calls
        split: sum.split prod.split)
qed

lemma frame_filter_diff: "frame t w (snd (filter_diff E t k w))"
  by (simp add: filter_diff_def Let_def frame_refl frame_put_generated
      split: sum.split option.split prod.split)

lemma frame_compute_diff: "frame t w (snd (compute_diff E t k da zone w c))"
proof (cases c)
  case False
  then show ?thesis by (simp add: compute_diff_def frame_filter_diff)
next
  case True
  obtain r1 w1 where a: "run_differ E t k da zone w = (r1, w1)"
    by (cases "run_differ E t k da zone w") auto
  from frame_run_differ[of t w E k da zone] a have f1: "frame t w w1" by simp
  have "frame t w (snd (filter_diff E t k w1))"
    by (rule frame_trans[OF f1 frame_filter_diff])
  with a f1 True show ?thesis
    by (simp add: compute_diff_def split: sum.split)
qed

lemma frame_get_diff: "frame t w (snd (get_diff E t k da zone w))"
  by (simp add: get_diff_def get_diff_miss_def frame_refl frame_compute_diff
      split: sum.split option.split)

lemma frame_agree: "separate s t \<Longrightarrow> frame t w w1 \<Longrightarrow> agree s w1 w"
  by (simp add: separate_def frame_def agree_def)

lemma get_diff_other:
  assumes "separate s t"
  shows "fst (get_diff E s k da zone (snd (get_diff E t k2 da2 zone2 w)))
       = fst (get_diff E s k da zone w)"
  by (rule agree_get_diff[OF frame_agree[OF assms frame_get_diff]])

lemma excluded_by_verb:
  assumes "verb s = Some v" and "\<not> needs_diff r s"
  shows "excluded E r w s =
     (\<not> (\<not> (\<exists>x \<in> {''unchanged'', ''new'', ''error''}.
                 v = x \<and> \<not> display_flag (config_display (config r)) x)
           \<and> v \<noteq> ''changed,no_report''))"
  using assms by (auto simp: excluded_def needs_diff_def display_flag_def)

lemma excluded_by_diff:
  assumes "needs_diff r s"
  shows "excluded E r w s = (fst (get_diff E s Text None (tz r) w) = Inr (Str []))"
  using assms by (auto simp: excluded_def needs_diff_def)

lemma get_filtered_job_states_aux:
  assumes "\<forall>s\<in>set xs. verb s \<noteq> None"
    and "\<forall>s\<in>set xs. \<forall>t\<in>set xs. s = t \<or> separate s t"
    and "\<forall>s\<in>set xs. needs_diff r s \<longrightarrow> (\<exists>d. fst (get_diff E s Text None (tz r) w) = Inr d)"
    and "\<forall>s\<in>set xs. fst (get_diff E s Text None (tz r) w')
                      = fst (get_diff E s Text None (tz r) w)"
  shows "fst (get_filtered_job_states E r xs w') = filter (\<lambda>s. \<not> excluded E r w s) xs
       \<and> fst (snd (get_filtered_job_states E r xs w')) = None"
  using assms
proof (induction xs arbitrary: w')
  case Nil
  then show ?case by simp
next
  case (Cons x xs)
  from Cons.prems(1) obtain v where v: "verb x = Some v" by auto
  have p1: "\<forall>s\<in>set xs. verb s \<noteq> None" using Cons.prems(1) by simp
  have p2: "\<forall>s\<in>set xs. \<forall>t\<in>set xs. s = t \<or> separate s t" using Cons.prems(2) by simp
  have p3: "\<forall>s\<in>set xs. needs_diff r s \<longrightarrow> (\<exists>d. fst (get_diff E s Text None (tz r) w) = Inr d)"
    using Cons.prems(3) by simp
  show ?case
  proof (cases "needs_diff r x")
    case False
    have p4: "\<forall>s\<in>set xs. fst (get_diff E s Text None (tz r) w')
                      = fst (get_diff E s Text None (tz r) w)"
      using Cons.prems(4) by simp
    note ih = Cons.IH[OF p1 p2 p3 p4]
    have nd: "\<not> (v = ''changed'' \<and> \<not> display_empty_diff (config_display (config r)))"
      using False v by (simp add: needs_diff_def)
    obtain ys ex w2 where rec: "get_filtered_job_states E r xs w' = (ys, ex, w2)"
      by (cases "get_filtered_job_states E r xs w'") auto
    define K where "K = (\<not> (\<exists>y \<in> {''unchanged'', ''new'', ''error''}.
                 v = y \<and> \<not> display_flag (config_display (config r)) y)
           \<and> v \<noteq> ''changed,no_report'')"
    have step: "get_filtered_job_states E r (x # xs) w'
        = (if K then (x # ys, ex, w2) else (ys, ex, w2))"
      using v nd rec by (auto simp: getattr_def K_def)
    have exc: "excluded E r w x = (\<not> K)"
      using excluded_by_verb[OF v False, of E w] by (simp add: K_def)
    from ih rec have "ys = filter (\<lambda>s. \<not> excluded E r w s) xs" "ex = None" by simp_all
    with step exc show ?thesis by simp
  next
    case True
    then have vc: "v = ''changed''" "\<not> display_empty_diff (config_display (config r))"
      using v by (simp_all add: needs_diff_def)
    from Cons.prems(3) True obtain d where d: "fst (get_diff E x Text None (tz r) w) = Inr d"
      by auto
    obtain rr w1 where g: "get_diff E x Text None (tz r) w' = (rr, w1)"
      by (cases "get_diff E x Text None (tz r) w'") auto
    have rr: "rr = Inr d" using Cons.prems(4) d g by simp
    have p4: "\<forall>s\<in>set xs. fst (get_diff E s Text None (tz r) w1)
                      = fst (get_diff E s Text None (tz r) w)"
    proof
      fix s assume s: "s \<in> set xs"
      from Cons.prems(2) s have "x = s \<or> separate s x"
        by (auto simp: separate_def)
      then show "fst (get_diff E s Text None (tz r) w1) = fst (get_diff E s Text None (tz r) w)"
      proof
        assume "x = s"
        with get_diff_again[OF g[unfolded rr], of None "tz r"] d show ?thesis by simp
      next
        assume "separate s x"
        from get_diff_other[OF this, of E Text None "tz r" Text None "tz r" w'] g
        have "fst (get_diff E s Text None (tz r) w1) = fst (get_diff E s Text None (tz r) w')"
          by simp
        with Cons.prems(4) s show ?thesis by simp
      qed
    qed
    note ih = Cons.IH[OF p1 p2 p3 p4]
    obtain ys ex w2 where rec: "get_filtered_job_states E r xs w1 = (ys, ex, w2)"
      by (cases "get_filtered_job_states E r xs w1") auto
    have step: "get_filtered_job_states E r (x # xs) w'
        = (if d = Str [] then (ys, ex, w2) else (x # ys, ex, w2))"
      using v vc g rr rec by (simp add: getattr_def)
    have exc: "excluded E r w x = (d = Str [])"
      using excluded_by_diff[OF True, of E w] d by simp
    from ih rec have "ys = filter (\<lambda>s. \<not> excluded E r w s) xs" "ex = None" by simp_all
    with step exc show ?thesis by simp
  qed
qed


subsection \<open>The job states of a report\<close>

lemmas report_defs = example_states_def example_report_def example_report2_def Report_init_def
  example_config_def

text \<open>
  C5. Given a list of job states that all have a verb, in which two different job states
  never share a memoization dictionary (the constructor gives each its own), and in which
  \<^verbatim>\<open>get_diff\<close> returns for every job state whose diff is needed, the iteration of
  \<^verbatim>\<open>get_filtered_job_states\<close> ends without an exception and yields, in the original
  order, exactly the job states that the rule of section 4.2 does not exclude: the verb is
  not \<^verbatim>\<open>changed,no_report\<close>; it is not one of \<^verbatim>\<open>unchanged\<close>, \<^verbatim>\<open>new\<close>, \<^verbatim>\<open>error\<close> with its
  display flag disabled; and it is not \<^verbatim>\<open>changed\<close> with empty diffs hidden and an empty
  diff for the report's time zone.
\<close>

theorem get_filtered_job_states_reportable:
  assumes "\<forall>s\<in>set xs. verb s \<noteq> None"
    and "\<forall>s\<in>set xs. \<forall>t\<in>set xs. s = t \<or> separate s t"
    and "\<forall>s\<in>set xs. needs_diff r s \<longrightarrow> (\<exists>d. fst (get_diff E s Text None (tz r) w) = Inr d)"
  shows "fst (get_filtered_job_states E r xs w) = filter (\<lambda>s. \<not> excluded E r w s) xs
       \<and> fst (snd (get_filtered_job_states E r xs w)) = None"
  using get_filtered_job_states_aux[OF assms, of w] by simp

theorem get_filtered_job_states_reportable_witness:
  "fst (get_filtered_job_states env_success example_report (fst example_states)
          (snd example_states))
     = [example_state\<lparr>verb := Some ''changed'', new_data := Some (Str ''page'')\<rparr>,
        example_state\<lparr>verb := Some ''changed'', new_data := Some (Str ''page'')\<rparr>]
   \<and> fst (snd (get_filtered_job_states env_success example_report (fst example_states)
          (snd example_states))) = None"
proof -
  have h1: "\<forall>s\<in>set (fst example_states). verb s \<noteq> None"
    by (simp add: report_defs example_defs)
  have h2: "\<forall>s\<in>set (fst example_states). \<forall>t\<in>set (fst example_states). s = t \<or> separate s t"
    by (simp add: report_defs example_defs separate_def)
  have h3: "\<forall>s\<in>set (fst example_states). needs_diff example_report s \<longrightarrow>
      (\<exists>d. fst (get_diff env_success s Text None (tz example_report) (snd example_states)) = Inr d)"
    by (simp add: report_defs example_defs needs_diff_def diff_defs)
  have f: "filter (\<lambda>s. \<not> excluded env_success example_report (snd example_states) s)
       (fst example_states)
     = [example_state\<lparr>verb := Some ''changed'', new_data := Some (Str ''page'')\<rparr>,
        example_state\<lparr>verb := Some ''changed'', new_data := Some (Str ''page'')\<rparr>]"
    by (simp add: report_defs example_defs excluded_def diff_defs)
  show ?thesis
    using get_filtered_job_states_reportable[OF h1 h2 h3] f by simp
qed

subsection \<open>Containers of new instances\<close>

lemma JobState_init_fresh:
  assumes "JobState_init C j w = (s, w1)"
  shows "generated_diff s = length (objs w) \<and> unfiltered_diff s = Suc (length (objs w))
       \<and> objs w1 = objs w @ [DiffDict [], DiffDict []]
       \<and> history_dic_snapshots s = JobState_history_dic_snapshots C"
  using assms by (auto simp: JobState_init_def alloc_def Let_def)

text \<open>
  C8 fails on the code. After the class bodies have run, two job states from the
  constructor have different \<^verbatim>\<open>generated_diff\<close> and different \<^verbatim>\<open>unfiltered_diff\<close>
  dictionaries, but their \<^verbatim>\<open>history_dic_snapshots\<close> is one object, the class attribute;
  and the \<^verbatim>\<open>job_states\<close> of two reports is one list, the class attribute, so that a job
  state recorded as new in the first report is in the list of the second.
\<close>

theorem class_level_containers_shared:
  "generated_diff example_state \<noteq> generated_diff example_state2
   \<and> unfiltered_diff example_state \<noteq> unfiltered_diff example_state2
   \<and> history_dic_snapshots example_state = history_dic_snapshots example_state2
   \<and> example_report \<noteq> example_report2
   \<and> job_states example_report = job_states example_report2
   \<and> objs example_world2 ! job_states example_report2 = JobStateList []
   \<and> objs (snd (snd (Report_result example_report ''new'' example_state example_world2)))
        ! job_states example_report2
      = JobStateList [example_state\<lparr>verb := Some ''new''\<rparr>]"
  by (simp add: report_defs example_defs Report_result_def Let_def)

end
